theory Spec2Isabelle
  imports Main
begin

section \<open>Strings\<close>

text \<open>
  The script works on Python \<open>str\<close> values with three operations: \<open>str.replace\<close>,
  \<open>str.format\<close> with positional arguments and \<open>str.join\<close>. Template text is modelled
  as \<^typ>\<open>string\<close>, the text's UTF-8 bytes. Every placeholder is ASCII and an ASCII byte
  never occurs inside a multi-byte UTF-8 sequence, so matching a placeholder on the bytes
  finds the same occurrences as matching it on Python's code points.
\<close>

text \<open>\<open>s.startswith(p)\<close>: \<open>p\<close> matches \<open>s\<close> at position 0.\<close>

fun startswith :: "string \<Rightarrow> string \<Rightarrow> bool" where
  "startswith s [] = True"
| "startswith [] (p # ps) = False"
| "startswith (c # cs) (p # ps) = (c = p \<and> startswith cs ps)"

text \<open>\<open>sub in s\<close>: \<open>sub\<close> matches \<open>s\<close> at some position.\<close>

fun contains :: "string \<Rightarrow> string \<Rightarrow> bool" where
  "contains sub [] = (sub = [])"
| "contains sub (c # cs) = (startswith (c # cs) sub \<or> contains sub cs)"

text \<open>
  \<open>s.replace(old, new)\<close>: scanning from the left, every occurrence of \<open>old\<close> that does
  not overlap an occurrence already replaced is replaced by \<open>new\<close>; the scan resumes
  behind the occurrence, and the inserted text is never scanned again. For an empty
  \<open>old\<close> Python inserts \<open>new\<close> before every character and at the end.
\<close>

function replace :: "string \<Rightarrow> string \<Rightarrow> string \<Rightarrow> string" where
  "replace old new [] = (if old = [] then new else [])"
| "replace old new (c # cs) =
     (if old = [] then new @ c # replace old new cs
      else if startswith (c # cs) old
        then new @ replace old new (drop (length old) (c # cs))
      else c # replace old new cs)"
  by pat_completeness auto
termination
  by (relation "measure (\<lambda>(old, new, s). length s)") (auto simp: neq_Nil_conv)

text \<open>\<open>sep.join(xs)\<close>.\<close>

fun join :: "string \<Rightarrow> string list \<Rightarrow> string" where
  "join sep [] = []"
| "join sep [x] = x"
| "join sep (x # y # ys) = x @ sep @ join sep (y # ys)"

section \<open>Constants and descriptors\<close>

definition SPAN_BUILD :: string where
  "SPAN_BUILD = ''0.11.0.4882''"

definition SPAN_DATE :: string where
  "SPAN_DATE = ''May 17, 2019''"

definition JBR_BUILD :: string where
  "JBR_BUILD = ''1.0.beta.4882''"

definition JBR_DATE :: string where
  "JBR_DATE = ''May 17, 2019''"

text \<open>\<open>OUT_FOLDER\<close> is the entry \<open>out\<close> of the script's directory \<open>DIR\<close>.\<close>

definition OUT_FOLDER :: string where
  "OUT_FOLDER = ''out''"

record DistrDescriptor =
  title :: string
  suffix :: string
  folder :: string

definition descrs :: "DistrDescriptor list" where
  "descrs =
    [\<lparr>title = ''Windows 64-bit ZIP archive (includes bundled 64-bit Java Runtime)'',
      suffix = ''_x64.zip'', folder = ''win''\<rparr>,
     \<lparr>title = ''Windows 32-bit ZIP archive (includes bundled 32-bit Java Runtime)'',
      suffix = ''_x86.zip'', folder = ''win''\<rparr>,
     \<lparr>title = ''Mac installer (includes bundled 64-bit Java Runtime)'',
      suffix = ''.dmg'', folder = ''mac''\<rparr>,
     \<lparr>title = ''Linux archive (includes bundled 64-bit Java Runtime)'',
      suffix = ''.tar.gz'', folder = ''linux''\<rparr>]"

section \<open>The JBR page\<close>

text \<open>
  \<open>create_tr(dd, build)\<close> of \<open>generate_jbr_data\<close>. The arguments of \<open>format\<close> are
  inserted as they are, so each \<open>{}\<close> is a concatenation.
\<close>

definition jbr_create_tr :: "DistrDescriptor \<Rightarrow> string \<Rightarrow> string" where
  \<open>jbr_create_tr dd build =
     (let code_base = ''https://download.jetbrains.com/biolabs/jbr_browser'';
          fname = ''jbr-'' @ build @ suffix dd;
          url = code_base @ ''/'' @ folder dd @ ''/'' @ fname
      in ''\<newline>        <tr>\<newline>            <td> <a href="'' @ url @ ''">'' @ fname
           @ ''</a></td>\<newline>            <td>'' @ title dd
           @ ''</td>\<newline>        </tr>\<newline>        '')\<close>

text \<open>The list comprehension of row fragments, and the text put in place of \<open>@TABLE@\<close>.\<close>

definition jbr_rows :: "string list" where
  "jbr_rows = map (\<lambda>d. jbr_create_tr d JBR_BUILD) descrs"

definition jbr_table :: string where
  "jbr_table = join ''\<newline>'' jbr_rows"

text \<open>The chain of three \<open>replace\<close> calls that first binds \<open>content\<close>.\<close>

definition jbr_replace_chain :: "string \<Rightarrow> string" where
  "jbr_replace_chain template_html =
     replace ''@DATE@'' JBR_DATE
       (replace ''@BUILD@'' JBR_BUILD
         (replace ''@TABLE@'' jbr_table template_html))"

text \<open>
  The loop over \<open>descrs\<close>; the state is \<open>seen_file_names\<close> and \<open>content\<close>.
\<close>

fun filename_loop ::
  "DistrDescriptor list \<Rightarrow> string set \<times> string \<Rightarrow> string set \<times> string" where
  "filename_loop [] st = st"
| "filename_loop (dd # dds) (seen_file_names, content) =
     (let fname = ''@FILENAME-'' @ folder dd @ ''@''
      in if fname \<notin> seen_file_names
         then filename_loop dds
                (insert fname seen_file_names,
                 replace fname (JBR_BUILD @ suffix dd) content)
         else filename_loop dds (seen_file_names, content))"

text \<open>
  The calls \<open>content.replace(fname, ...)\<close> that the loop makes, in order, as pairs of
  arguments: the same loop, recording instead of replacing.
\<close>

fun filename_calls :: "DistrDescriptor list \<Rightarrow> string set \<Rightarrow> (string \<times> string) list" where
  "filename_calls [] seen_file_names = []"
| "filename_calls (dd # dds) seen_file_names =
     (let fname = ''@FILENAME-'' @ folder dd @ ''@''
      in if fname \<notin> seen_file_names
         then (fname, JBR_BUILD @ suffix dd) # filename_calls dds (insert fname seen_file_names)
         else filename_calls dds seen_file_names)"

text \<open>The text that \<open>generate_jbr_data\<close> writes, as a function of the template text.\<close>

definition jbr_content :: "string \<Rightarrow> string" where
  "jbr_content template_html = snd (filename_loop descrs ({}, jbr_replace_chain template_html))"

section \<open>The SPAN page\<close>

text \<open>\<open>create_tr(build)\<close> of \<open>generate_span_data\<close>; \<open>{0}\<close> is used twice.\<close>

definition span_create_tr :: "string \<Rightarrow> string" where
  \<open>span_create_tr build =
     (let arg0 = ''span-'' @ build @ ''.jar''
      in ''\<newline>        <tr>\<newline>            <td> <a href="https://download.jetbrains.com/biolabs/span/''
           @ arg0 @ ''">'' @ arg0
           @ ''</a></td>\<newline>            <td> Multi-platform JAR package </td>\<newline>        </tr>\<newline>        '')\<close>

definition span_content :: "string \<Rightarrow> string" where
  "span_content template_html =
     replace ''@DATE@'' SPAN_DATE
       (replace ''@BUILD@'' SPAN_BUILD
         (replace ''@TABLE@'' (span_create_tr SPAN_BUILD) template_html))"

section \<open>Files and standard output\<close>

text \<open>
  The script touches its own directory \<open>DIR\<close> only: it reads two templates there and
  deletes, creates and fills the entry \<open>out\<close>. \<open>DIR\<close> is a map from entry names to
  nodes, a node is a regular file with its text or a directory with its own entries.
  Permissions, symbolic links and decoding errors are outside the model: every regular
  file can be read and every directory can be changed.
\<close>

datatype node = File string | Dir "string \<Rightarrow> node option"

record world =
  entries :: "string \<Rightarrow> node option"
  stdout :: "string list"

datatype error = FileNotFoundError | IsADirectoryError | NotADirectoryError | FileExistsError

text \<open>
  A step takes the world and returns the world it leaves, with the exception it raised,
  if any. What a step did before it raised stays done.
\<close>

type_synonym step = "world \<Rightarrow> error option \<times> world"

definition and_then :: "step \<Rightarrow> step \<Rightarrow> step" where
  "and_then f g w = (case f w of (None, w') \<Rightarrow> g w' | (Some e, w') \<Rightarrow> (Some e, w'))"

text \<open>\<open>os.path.exists(os.path.join(DIR, name))\<close>.\<close>

definition path_exists :: "string \<Rightarrow> world \<Rightarrow> bool" where
  "path_exists name w = (entries w name \<noteq> None)"

text \<open>\<open>shutil.rmtree(os.path.join(DIR, name))\<close>: raises unless the path is a directory.\<close>

definition rmtree :: "string \<Rightarrow> step" where
  "rmtree name w =
     (case entries w name of
        None \<Rightarrow> (Some FileNotFoundError, w)
      | Some (File _) \<Rightarrow> (Some NotADirectoryError, w)
      | Some (Dir _) \<Rightarrow> (None, w\<lparr>entries := (entries w)(name := None)\<rparr>))"

text \<open>\<open>os.mkdir(os.path.join(DIR, name))\<close>: raises if the path exists.\<close>

definition mkdir :: "string \<Rightarrow> step" where
  "mkdir name w =
     (case entries w name of
        Some _ \<Rightarrow> (Some FileExistsError, w)
      | None \<Rightarrow> (None, w\<lparr>entries := (entries w)(name \<mapsto> Dir Map.empty)\<rparr>))"

text \<open>\<open>print(line)\<close>.\<close>

definition print :: "string \<Rightarrow> step" where
  "print line w = (None, w\<lparr>stdout := stdout w @ [line]\<rparr>)"

text \<open>\<open>open(os.path.join(DIR, name), 'r')\<close> followed by \<open>f.read()\<close>.\<close>

definition read_text :: "string \<Rightarrow> world \<Rightarrow> error + string" where
  "read_text name w =
     (case entries w name of
        None \<Rightarrow> Inl FileNotFoundError
      | Some (Dir _) \<Rightarrow> Inl IsADirectoryError
      | Some (File body) \<Rightarrow> Inr body)"

text \<open>
  \<open>open(os.path.join(DIR, dir, name), 'w')\<close>: the directory must exist; the file is
  created, or truncated if it exists.
\<close>

definition open_w :: "string \<Rightarrow> string \<Rightarrow> step" where
  "open_w dir name w =
     (case entries w dir of
        None \<Rightarrow> (Some FileNotFoundError, w)
      | Some (File _) \<Rightarrow> (Some NotADirectoryError, w)
      | Some (Dir d) \<Rightarrow>
          (case d name of
             Some (Dir _) \<Rightarrow> (Some IsADirectoryError, w)
           | _ \<Rightarrow> (None, w\<lparr>entries := (entries w)(dir \<mapsto> Dir (d(name \<mapsto> File [])))\<rparr>)))"

text \<open>
  \<open>f.write(content)\<close> and the end of the \<open>with\<close> block, on the file that \<open>open_w\<close>
  has opened: the file holds \<open>content\<close>.
\<close>

definition write_close :: "string \<Rightarrow> string \<Rightarrow> string \<Rightarrow> step" where
  "write_close dir name content w =
     (case entries w dir of
        Some (Dir d) \<Rightarrow> (None, w\<lparr>entries := (entries w)(dir \<mapsto> Dir (d(name \<mapsto> File content)))\<rparr>)
      | _ \<Rightarrow> (None, w))"

section \<open>The generators and the entry point\<close>

definition generate_jbr_data :: step where
  "generate_jbr_data w =
     (let template = ''jetbrains_research_jbr.html''
      in case read_text template w of
           Inl e \<Rightarrow> (Some e, w)
         | Inr template_html \<Rightarrow>
             and_then (open_w OUT_FOLDER template)
               (write_close OUT_FOLDER template (jbr_content template_html)) w)"

definition generate_span_data :: step where
  "generate_span_data w =
     (let template = ''jetbrains_research_span.html''
      in case read_text template w of
           Inl e \<Rightarrow> (Some e, w)
         | Inr template_html \<Rightarrow>
             and_then (open_w OUT_FOLDER template)
               (write_close OUT_FOLDER template (span_content template_html)) w)"

text \<open>The first three lines of \<open>_cli\<close>.\<close>

definition prepare_out_folder :: step where
  "prepare_out_folder =
     and_then (\<lambda>w. if path_exists OUT_FOLDER w then rmtree OUT_FOLDER w else (None, w))
       (mkdir OUT_FOLDER)"

text \<open>\<open>_cli\<close>.\<close>

definition cli :: step where
  "cli =
     and_then prepare_out_folder
       (and_then (print ''Creating JetBrains Research JBR page'')
         (and_then generate_jbr_data
           (and_then (print ''Creating JetBrains Research SPAN page'')
             (and_then generate_span_data
               (print ''Done'')))))"

text \<open>
  The order of steps as section 4.4 of the specification words it: both generators
  run first, the three lines are printed afterwards. It is compared with \<open>cli\<close> below.
\<close>

definition cli_spec_order :: step where
  "cli_spec_order =
     and_then prepare_out_folder
       (and_then generate_jbr_data
         (and_then generate_span_data
           (and_then (print ''Creating JetBrains Research JBR page'')
             (and_then (print ''Creating JetBrains Research SPAN page'')
               (print ''Done'')))))"

text \<open>The node of an entry of the output directory, if the directory and it exist.\<close>

definition out_entry :: "world \<Rightarrow> string \<Rightarrow> node option" where
  "out_entry w name =
     (case entries w OUT_FOLDER of Some (Dir d) \<Rightarrow> d name | _ \<Rightarrow> None)"

section \<open>Occurrences under \<open>replace\<close>\<close>

lemma startswith_Nil [simp]: "startswith [] p = (p = [])"
  by (cases p) simp_all


lemma contains_Nil [simp]: "contains [] s"
  by (cases s) simp_all

lemma replace_absent: "\<not> contains old s \<Longrightarrow> replace old new s = s"
proof (induction s)
  case Nil
  then show ?case by simp
next
  case (Cons c cs)
  from Cons.prems have "old \<noteq> []" by auto
  with Cons show ?case by simp
qed





section \<open>The substitution chains, unfolded\<close>

lemma jbr_content_unfold:
  "jbr_content t =
     replace ''@FILENAME-linux@'' ''1.0.beta.4882.tar.gz''
       (replace ''@FILENAME-mac@'' ''1.0.beta.4882.dmg''
         (replace ''@FILENAME-win@'' ''1.0.beta.4882_x64.zip''
           (replace ''@DATE@'' ''May 17, 2019''
             (replace ''@BUILD@'' ''1.0.beta.4882''
               (replace ''@TABLE@'' jbr_table t)))))"
  by (simp add: jbr_content_def jbr_replace_chain_def descrs_def JBR_BUILD_def JBR_DATE_def Let_def)





lemma span_content_unfold:
  "span_content t =
     replace ''@DATE@'' ''May 17, 2019''
       (replace ''@BUILD@'' ''0.11.0.4882''
         (replace ''@TABLE@'' (span_create_tr SPAN_BUILD) t))"
  by (simp add: span_content_def SPAN_BUILD_def SPAN_DATE_def)







section \<open>Runs of the entry point\<close>

lemma prepare_out_folder_raises:
  "entries w OUT_FOLDER = Some (File c) \<Longrightarrow> prepare_out_folder w = (Some NotADirectoryError, w)"
  by (simp add: prepare_out_folder_def and_then_def path_exists_def rmtree_def)

lemma prepare_out_folder_returns:
  assumes "\<forall>c. entries w OUT_FOLDER \<noteq> Some (File c)"
  shows "prepare_out_folder w = (None, w\<lparr>entries := (entries w)(OUT_FOLDER \<mapsto> Dir Map.empty)\<rparr>)"
proof (cases "entries w OUT_FOLDER")
  case None
  then show ?thesis
    by (simp add: prepare_out_folder_def and_then_def path_exists_def mkdir_def)
next
  case (Some n)
  with assms obtain d where "n = Dir d" by (cases n) auto
  with Some show ?thesis
    by (simp add: prepare_out_folder_def and_then_def path_exists_def rmtree_def mkdir_def)
qed

lemma generate_jbr_data_raises_at_read:
  "read_text ''jetbrains_research_jbr.html'' w = Inl e \<Longrightarrow> generate_jbr_data w = (Some e, w)"
  by (simp add: generate_jbr_data_def)

lemma generate_span_data_raises_at_read:
  "read_text ''jetbrains_research_span.html'' w = Inl e \<Longrightarrow> generate_span_data w = (Some e, w)"
  by (simp add: generate_span_data_def)

lemma open_w_returns:
  assumes "entries w dir = Some (Dir d)" and "\<forall>x. d name \<noteq> Some (Dir x)"
  shows "open_w dir name w = (None, w\<lparr>entries := (entries w)(dir \<mapsto> Dir (d(name \<mapsto> File [])))\<rparr>)"
proof (cases "d name")
  case None
  with assms show ?thesis by (simp add: open_w_def)
next
  case (Some n)
  with assms obtain body where "n = File body" by (cases n) auto
  with Some assms show ?thesis by (simp add: open_w_def)
qed

lemma generate_jbr_data_returns:
  assumes "read_text ''jetbrains_research_jbr.html'' w = Inr t"
    and "entries w OUT_FOLDER = Some (Dir d)"
    and "\<forall>x. d ''jetbrains_research_jbr.html'' \<noteq> Some (Dir x)"
  shows "generate_jbr_data w =
    (None, w\<lparr>entries := (entries w)(OUT_FOLDER \<mapsto>
       Dir (d(''jetbrains_research_jbr.html'' \<mapsto> File (jbr_content t))))\<rparr>)"
  using assms(1,2)
  by (simp add: generate_jbr_data_def and_then_def open_w_returns [OF assms(2,3)] write_close_def)

lemma generate_span_data_returns:
  assumes "read_text ''jetbrains_research_span.html'' w = Inr t"
    and "entries w OUT_FOLDER = Some (Dir d)"
    and "\<forall>x. d ''jetbrains_research_span.html'' \<noteq> Some (Dir x)"
  shows "generate_span_data w =
    (None, w\<lparr>entries := (entries w)(OUT_FOLDER \<mapsto>
       Dir (d(''jetbrains_research_span.html'' \<mapsto> File (span_content t))))\<rparr>)"
  using assms(1,2)
  by (simp add: generate_span_data_def and_then_def open_w_returns [OF assms(2,3)] write_close_def)

lemma cli_raises_at_prepare:
  "entries w OUT_FOLDER = Some (File c) \<Longrightarrow> cli w = (Some NotADirectoryError, w)"
  by (simp add: cli_def and_then_def prepare_out_folder_raises)

lemma cli_raises_at_jbr:
  assumes "\<forall>c. entries w OUT_FOLDER \<noteq> Some (File c)"
    and "read_text ''jetbrains_research_jbr.html'' w = Inl e"
  shows "cli w = (Some e, w\<lparr>entries := (entries w)(OUT_FOLDER \<mapsto> Dir Map.empty),
                          stdout := stdout w @ [''Creating JetBrains Research JBR page'']\<rparr>)"
proof -
  let ?w1 = "w\<lparr>entries := (entries w)(OUT_FOLDER \<mapsto> Dir Map.empty),
                stdout := stdout w @ [''Creating JetBrains Research JBR page'']\<rparr>"
  have "read_text ''jetbrains_research_jbr.html'' ?w1 = Inl e"
    using assms(2) by (simp add: read_text_def OUT_FOLDER_def)
  then have "generate_jbr_data ?w1 = (Some e, ?w1)"
    by (rule generate_jbr_data_raises_at_read)
  then show ?thesis
    by (simp add: cli_def and_then_def prepare_out_folder_returns [OF assms(1)] print_def)
qed

lemma cli_raises_at_span:
  assumes "\<forall>c. entries w OUT_FOLDER \<noteq> Some (File c)"
    and "read_text ''jetbrains_research_jbr.html'' w = Inr tj"
    and "read_text ''jetbrains_research_span.html'' w = Inl e"
  shows "cli w = (Some e, w\<lparr>entries := (entries w)(OUT_FOLDER \<mapsto>
                      Dir [''jetbrains_research_jbr.html'' \<mapsto> File (jbr_content tj)]),
                    stdout := stdout w @ [''Creating JetBrains Research JBR page'',
                                          ''Creating JetBrains Research SPAN page'']\<rparr>)"
proof -
  let ?w1 = "w\<lparr>entries := (entries w)(OUT_FOLDER \<mapsto> Dir Map.empty),
                stdout := stdout w @ [''Creating JetBrains Research JBR page'']\<rparr>"
  let ?w2 = "?w1\<lparr>entries := (entries ?w1)(OUT_FOLDER \<mapsto>
                      Dir [''jetbrains_research_jbr.html'' \<mapsto> File (jbr_content tj)])\<rparr>"
  let ?w3 = "?w2\<lparr>stdout := stdout ?w2 @ [''Creating JetBrains Research SPAN page'']\<rparr>"
  have "read_text ''jetbrains_research_jbr.html'' ?w1 = Inr tj"
    using assms(2) by (simp add: read_text_def OUT_FOLDER_def)
  then have j: "generate_jbr_data ?w1 = (None, ?w2)"
    by (rule generate_jbr_data_returns) simp_all
  have "read_text ''jetbrains_research_span.html'' ?w3 = Inl e"
    using assms(3) by (simp add: read_text_def OUT_FOLDER_def)
  then have s: "generate_span_data ?w3 = (Some e, ?w3)"
    by (rule generate_span_data_raises_at_read)
  have "cli w = and_then generate_span_data (print ''Done'') ?w3"
    by (simp add: cli_def and_then_def prepare_out_folder_returns [OF assms(1)] print_def j)
  with s show ?thesis by (simp add: and_then_def)
qed

lemma cli_returns:
  assumes "\<forall>c. entries w OUT_FOLDER \<noteq> Some (File c)"
    and "read_text ''jetbrains_research_jbr.html'' w = Inr tj"
    and "read_text ''jetbrains_research_span.html'' w = Inr ts"
  shows "cli w = (None, w\<lparr>entries := (entries w)(OUT_FOLDER \<mapsto>
                      Dir [''jetbrains_research_jbr.html'' \<mapsto> File (jbr_content tj),
                           ''jetbrains_research_span.html'' \<mapsto> File (span_content ts)]),
                    stdout := stdout w @ [''Creating JetBrains Research JBR page'',
                                          ''Creating JetBrains Research SPAN page'',
                                          ''Done'']\<rparr>)"
proof -
  let ?w1 = "w\<lparr>entries := (entries w)(OUT_FOLDER \<mapsto> Dir Map.empty),
                stdout := stdout w @ [''Creating JetBrains Research JBR page'']\<rparr>"
  let ?w2 = "?w1\<lparr>entries := (entries ?w1)(OUT_FOLDER \<mapsto>
                      Dir [''jetbrains_research_jbr.html'' \<mapsto> File (jbr_content tj)])\<rparr>"
  let ?w3 = "?w2\<lparr>stdout := stdout ?w2 @ [''Creating JetBrains Research SPAN page'']\<rparr>"
  let ?w4 = "?w3\<lparr>entries := (entries ?w3)(OUT_FOLDER \<mapsto>
                      Dir [''jetbrains_research_jbr.html'' \<mapsto> File (jbr_content tj),
                           ''jetbrains_research_span.html'' \<mapsto> File (span_content ts)])\<rparr>"
  have "read_text ''jetbrains_research_jbr.html'' ?w1 = Inr tj"
    using assms(2) by (simp add: read_text_def OUT_FOLDER_def)
  then have j: "generate_jbr_data ?w1 = (None, ?w2)"
    by (rule generate_jbr_data_returns) simp_all
  have "read_text ''jetbrains_research_span.html'' ?w3 = Inr ts"
    using assms(3) by (simp add: read_text_def OUT_FOLDER_def)
  then have s: "generate_span_data ?w3 = (None, ?w4)"
    by (rule generate_span_data_returns) simp_all
  have "cli w = and_then generate_span_data (print ''Done'') ?w3"
    by (simp add: cli_def and_then_def prepare_out_folder_returns [OF assms(1)] print_def j)
  with s show ?thesis by (simp add: and_then_def print_def)
qed

section \<open>Substitution at an occurrence\<close>







lemma filename_loop_calls:
  "snd (filename_loop ds (seen, content)) =
     foldl (\<lambda>c (old, new). replace old new c) content (filename_calls ds seen)"
  by (induction ds arbitrary: seen content) (simp_all add: Let_def)

lemma filename_loop_seen:
  "fst (filename_loop ds (seen, content)) = seen \<union> fst ` set (filename_calls ds seen)"
  by (induction ds arbitrary: seen content) (auto simp add: Let_def)

lemma filename_calls_keys:
  "fst ` set (filename_calls ds seen) = (\<lambda>d. ''@FILENAME-'' @ folder d @ ''@'') ` set ds - seen"
  by (induction ds arbitrary: seen) (auto simp add: Let_def)

lemma filename_calls_distinct: "distinct (map fst (filename_calls ds seen))"
proof (induction ds arbitrary: seen)
  case Nil
  then show ?case by simp
next
  case (Cons d ds)
  let ?k = "''@FILENAME-'' @ folder d @ ''@''"
  have "?k \<notin> fst ` set (filename_calls ds (insert ?k seen))"
    unfolding filename_calls_keys by blast
  with Cons show ?case by (simp add: Let_def)
qed

lemma filename_calls_first:
  "map_of (filename_calls ds seen) k =
     (if k \<in> seen then None
      else map_of (map (\<lambda>d. (''@FILENAME-'' @ folder d @ ''@'', JBR_BUILD @ suffix d)) ds) k)"
  by (induction ds arbitrary: seen) (auto simp add: Let_def)

lemma filename_calls_descrs:
  "filename_calls descrs {} =
     [(''@FILENAME-win@'', ''1.0.beta.4882_x64.zip''),
      (''@FILENAME-mac@'', ''1.0.beta.4882.dmg''),
      (''@FILENAME-linux@'', ''1.0.beta.4882.tar.gz'')]"
  by (simp add: descrs_def JBR_BUILD_def Let_def)

section \<open>What a generator that returns has written\<close>

lemma open_w_then_write_close:
  assumes "and_then (open_w dir name) (write_close dir name content) w = (None, w')"
  shows "\<exists>d. entries w dir = Some (Dir d) \<and> (\<forall>x. d name \<noteq> Some (Dir x))
           \<and> w' = w\<lparr>entries := (entries w)(dir \<mapsto> Dir (d(name \<mapsto> File content)))\<rparr>"
proof (cases "entries w dir")
  case None
  with assms show ?thesis by (simp add: and_then_def open_w_def)
next
  case (Some n)
  show ?thesis
  proof (cases n)
    case (File body)
    with Some assms show ?thesis by (simp add: and_then_def open_w_def)
  next
    case (Dir d)
    have nd: "\<forall>x. d name \<noteq> Some (Dir x)"
    proof (intro allI notI)
      fix x assume "d name = Some (Dir x)"
      with Some Dir assms show False by (simp add: and_then_def open_w_def)
    qed
    from Some Dir have "open_w dir name w =
        (None, w\<lparr>entries := (entries w)(dir \<mapsto> Dir (d(name \<mapsto> File [])))\<rparr>)"
      using nd by (intro open_w_returns) simp_all
    with assms have "w' = w\<lparr>entries := (entries w)(dir \<mapsto> Dir (d(name \<mapsto> File content)))\<rparr>"
      by (simp add: and_then_def write_close_def)
    with Some Dir nd show ?thesis by simp
  qed
qed

lemma generate_jbr_data_written:
  assumes "generate_jbr_data w = (None, w')"
    and "read_text ''jetbrains_research_jbr.html'' w = Inr t"
  shows "out_entry w' ''jetbrains_research_jbr.html'' = Some (File (jbr_content t))"
proof -
  from assms have "and_then (open_w OUT_FOLDER ''jetbrains_research_jbr.html'')
      (write_close OUT_FOLDER ''jetbrains_research_jbr.html'' (jbr_content t)) w = (None, w')"
    by (simp add: generate_jbr_data_def Let_def)
  from open_w_then_write_close [OF this] show ?thesis
    by (auto simp add: out_entry_def)
qed

lemma generate_span_data_written:
  assumes "generate_span_data w = (None, w')"
    and "read_text ''jetbrains_research_span.html'' w = Inr t"
  shows "out_entry w' ''jetbrains_research_span.html'' = Some (File (span_content t))"
proof -
  from assms have "and_then (open_w OUT_FOLDER ''jetbrains_research_span.html'')
      (write_close OUT_FOLDER ''jetbrains_research_span.html'' (span_content t)) w = (None, w')"
    by (simp add: generate_span_data_def Let_def)
  from open_w_then_write_close [OF this] show ?thesis
    by (auto simp add: out_entry_def)
qed

lemma jbr_content_identity:
  assumes "\<not> contains ''@TABLE@'' t" and "\<not> contains ''@BUILD@'' t" and "\<not> contains ''@DATE@'' t"
    and "\<not> contains ''@FILENAME-win@'' t" and "\<not> contains ''@FILENAME-mac@'' t"
    and "\<not> contains ''@FILENAME-linux@'' t"
  shows "jbr_content t = t"
  unfolding jbr_content_unfold using assms by (simp add: replace_absent)

lemma span_content_identity:
  assumes "\<not> contains ''@TABLE@'' t" and "\<not> contains ''@BUILD@'' t" and "\<not> contains ''@DATE@'' t"
  shows "span_content t = t"
  unfolding span_content_unfold using assms by (simp add: replace_absent)

section \<open>Runs that return and runs that stop at the JBR generator\<close>

lemma read_text_absent: "entries w name = None \<Longrightarrow> read_text name w = Inl FileNotFoundError"
  by (simp add: read_text_def)

lemma read_text_same: "entries w name = entries v name \<Longrightarrow> read_text name w = read_text name v"
  by (simp add: read_text_def)

lemma cli_returns_only_if:
  assumes "cli w = (None, w')"
  shows "(\<forall>c. entries w OUT_FOLDER \<noteq> Some (File c))
    \<and> (\<exists>tj ts. read_text ''jetbrains_research_jbr.html'' w = Inr tj
          \<and> read_text ''jetbrains_research_span.html'' w = Inr ts)"
proof -
  have nofile: "\<forall>c. entries w OUT_FOLDER \<noteq> Some (File c)"
  proof (intro allI notI)
    fix c assume "entries w OUT_FOLDER = Some (File c)"
    from cli_raises_at_prepare [OF this] assms show False by simp
  qed
  obtain tj where tj: "read_text ''jetbrains_research_jbr.html'' w = Inr tj"
  proof (cases "read_text ''jetbrains_research_jbr.html'' w")
    case (Inl e)
    from cli_raises_at_jbr [OF nofile Inl] assms show ?thesis by simp
  next
    case (Inr t)
    then show ?thesis by (rule that)
  qed
  obtain ts where ts: "read_text ''jetbrains_research_span.html'' w = Inr ts"
  proof (cases "read_text ''jetbrains_research_span.html'' w")
    case (Inl e)
    from cli_raises_at_span [OF nofile tj Inl] assms show ?thesis by simp
  next
    case (Inr t)
    then show ?thesis by (rule that)
  qed
  from nofile tj ts show ?thesis by blast
qed

lemma cli_truncated_at_jbr:
  assumes "read_text ''jetbrains_research_jbr.html'' w = Inl e"
  shows "cli w =
    and_then prepare_out_folder
      (and_then (print ''Creating JetBrains Research JBR page'') generate_jbr_data) w"
proof (cases "\<exists>c. entries w OUT_FOLDER = Some (File c)")
  case True
  then obtain c where c: "entries w OUT_FOLDER = Some (File c)" by blast
  show ?thesis
    by (simp add: cli_raises_at_prepare [OF c] and_then_def prepare_out_folder_raises [OF c])
next
  case False
  then have nofile: "\<forall>c. entries w OUT_FOLDER \<noteq> Some (File c)" by blast
  let ?w1 = "w\<lparr>entries := (entries w)(OUT_FOLDER \<mapsto> Dir Map.empty),
                stdout := stdout w @ [''Creating JetBrains Research JBR page'']\<rparr>"
  have "read_text ''jetbrains_research_jbr.html'' ?w1 = Inl e"
    using assms by (simp add: read_text_def OUT_FOLDER_def)
  then have "generate_jbr_data ?w1 = (Some e, ?w1)"
    by (rule generate_jbr_data_raises_at_read)
  then show ?thesis
    by (simp add: cli_raises_at_jbr [OF nofile assms] and_then_def
        prepare_out_folder_returns [OF nofile] print_def)
qed

section \<open>Claims about the generated text\<close>



text \<open>
  C2. In the JBR generator, the loop over the descriptors calls \<open>replace\<close> once for each
  distinct folder key, with the placeholder \<open>@FILENAME-<folder>@\<close> and the value
  \<open><build><suffix>\<close> of the first descriptor in list order that has the folder. For the
  four descriptors of the script the calls are those for \<open>win\<close>, \<open>mac\<close> and \<open>linux\<close>;
  \<open>@FILENAME-win@\<close> becomes \<open><build>_x64.zip\<close>, and no call has the value
  \<open><build>_x86.zip\<close>. The last four conjuncts hold for every list of descriptors:
  the loop applies the recorded calls in order, their placeholders are distinct, they are
  the placeholders of the folders in the list, and looking a placeholder up in the calls
  gives what looking it up in the list of all descriptors gives, where the first match wins.
\<close>

theorem filename_placeholders_first_wins:
  "filename_calls descrs {} =
     [(''@FILENAME-win@'', JBR_BUILD @ ''_x64.zip''),
      (''@FILENAME-mac@'', JBR_BUILD @ ''.dmg''),
      (''@FILENAME-linux@'', JBR_BUILD @ ''.tar.gz'')]
   \<and> (k, JBR_BUILD @ ''_x86.zip'') \<notin> set (filename_calls descrs {})
   \<and> snd (filename_loop descrs ({}, content)) =
       replace ''@FILENAME-linux@'' (JBR_BUILD @ ''.tar.gz'')
         (replace ''@FILENAME-mac@'' (JBR_BUILD @ ''.dmg'')
           (replace ''@FILENAME-win@'' (JBR_BUILD @ ''_x64.zip'') content))
   \<and> jbr_content ''@FILENAME-win@'' = JBR_BUILD @ ''_x64.zip''
   \<and> snd (filename_loop ds ({}, content)) =
       foldl (\<lambda>c (old, new). replace old new c) content (filename_calls ds {})
   \<and> distinct (map fst (filename_calls ds {}))
   \<and> fst ` set (filename_calls ds {}) = (\<lambda>d. ''@FILENAME-'' @ folder d @ ''@'') ` set ds
   \<and> map_of (filename_calls ds {}) =
       map_of (map (\<lambda>d. (''@FILENAME-'' @ folder d @ ''@'', JBR_BUILD @ suffix d)) ds)"
proof -
  have calls: "filename_calls descrs {} =
     [(''@FILENAME-win@'', JBR_BUILD @ ''_x64.zip''),
      (''@FILENAME-mac@'', JBR_BUILD @ ''.dmg''),
      (''@FILENAME-linux@'', JBR_BUILD @ ''.tar.gz'')]"
    by (simp add: filename_calls_descrs JBR_BUILD_def)
  have never: "(k, JBR_BUILD @ ''_x86.zip'') \<notin> set (filename_calls descrs {})"
    by (simp add: filename_calls_descrs JBR_BUILD_def)
  have loop: "snd (filename_loop descrs ({}, content)) =
       replace ''@FILENAME-linux@'' (JBR_BUILD @ ''.tar.gz'')
         (replace ''@FILENAME-mac@'' (JBR_BUILD @ ''.dmg'')
           (replace ''@FILENAME-win@'' (JBR_BUILD @ ''_x64.zip'') content))"
    by (simp add: filename_loop_calls calls)
  have win: "jbr_content ''@FILENAME-win@'' = JBR_BUILD @ ''_x64.zip''"
    by (simp add: jbr_content_unfold JBR_BUILD_def)
  have first: "map_of (filename_calls ds {}) =
       map_of (map (\<lambda>d. (''@FILENAME-'' @ folder d @ ''@'', JBR_BUILD @ suffix d)) ds)"
    by (rule ext) (simp add: filename_calls_first)
  have keys: "fst ` set (filename_calls ds {}) = (\<lambda>d. ''@FILENAME-'' @ folder d @ ''@'') ` set ds"
    by (simp add: filename_calls_keys)
  show ?thesis
    using calls never loop win first keys filename_loop_calls [of ds "{}" content]
      filename_calls_distinct [of ds "{}"]
    by blast
qed

theorem filename_placeholders_first_wins_witness:
  "filename_calls descrs {} =
     [(''@FILENAME-win@'', ''1.0.beta.4882_x64.zip''),
      (''@FILENAME-mac@'', ''1.0.beta.4882.dmg''),
      (''@FILENAME-linux@'', ''1.0.beta.4882.tar.gz'')]
   \<and> (''@FILENAME-win@'', ''1.0.beta.4882_x86.zip'') \<notin> set (filename_calls descrs {})
   \<and> snd (filename_loop descrs ({}, ''@FILENAME-win@ @FILENAME-mac@ @FILENAME-linux@ @FILENAME-win@'')) =
       ''1.0.beta.4882_x64.zip 1.0.beta.4882.dmg 1.0.beta.4882.tar.gz 1.0.beta.4882_x64.zip''
   \<and> jbr_content ''@FILENAME-win@'' = ''1.0.beta.4882_x64.zip''
   \<and> distinct (map fst (filename_calls descrs {}))
   \<and> map_of (filename_calls descrs {}) ''@FILENAME-win@'' = Some ''1.0.beta.4882_x64.zip''"
  using filename_placeholders_first_wins
    [of "''@FILENAME-win@''" "''@FILENAME-win@ @FILENAME-mac@ @FILENAME-linux@ @FILENAME-win@''" descrs]
  by (simp add: JBR_BUILD_def descrs_def)

text \<open>
  C3. With \<open>JBR_BUILD = "1.0.beta.4882"\<close>, the row fragment of the first descriptor
  (Windows 64-bit) holds a link whose \<open>href\<close> is
  \<open>https://download.jetbrains.com/biolabs/jbr_browser/win/jbr-1.0.beta.4882_x64.zip\<close> and
  whose text is \<open>jbr-1.0.beta.4882_x64.zip\<close>; for every descriptor and build, the link goes
  to the base URL, the folder and the file name \<open>jbr-<build><suffix>\<close>, joined by \<open>/\<close>,
  and shows the file name.
\<close>

theorem jbr_windows_64_row:
  \<open>JBR_BUILD = ''1.0.beta.4882''
   \<and> title (descrs ! 0) = ''Windows 64-bit ZIP archive (includes bundled 64-bit Java Runtime)''
   \<and> jbr_create_tr (descrs ! 0) JBR_BUILD =
       ''\<newline>        <tr>\<newline>            <td> <a href="https://download.jetbrains.com/biolabs/jbr_browser/win/jbr-1.0.beta.4882_x64.zip">jbr-1.0.beta.4882_x64.zip</a></td>\<newline>            <td>Windows 64-bit ZIP archive (includes bundled 64-bit Java Runtime)</td>\<newline>        </tr>\<newline>        ''
   \<and> jbr_create_tr dd build =
       ''\<newline>        <tr>\<newline>            <td> <a href="''
       @ ''https://download.jetbrains.com/biolabs/jbr_browser'' @ ''/'' @ folder dd @ ''/''
       @ (''jbr-'' @ build @ suffix dd)
       @ ''">'' @ (''jbr-'' @ build @ suffix dd) @ ''</a></td>\<newline>            <td>''
       @ title dd @ ''</td>\<newline>        </tr>\<newline>        ''\<close>
  by (simp add: jbr_create_tr_def descrs_def JBR_BUILD_def)





text \<open>
  C10. For every template text with no occurrence of \<open>@TABLE@\<close>, \<open>@BUILD@\<close>, \<open>@DATE@\<close>,
  \<open>@FILENAME-win@\<close>, \<open>@FILENAME-mac@\<close> or \<open>@FILENAME-linux@\<close>, the text that either
  generator computes is the template text, and a generator that reads this template and
  returns has written a file with exactly this text.
\<close>

theorem template_without_placeholders_unchanged:
  assumes "\<not> contains ''@TABLE@'' t" and "\<not> contains ''@BUILD@'' t" and "\<not> contains ''@DATE@'' t"
    and "\<not> contains ''@FILENAME-win@'' t" and "\<not> contains ''@FILENAME-mac@'' t"
    and "\<not> contains ''@FILENAME-linux@'' t"
  shows "jbr_content t = t \<and> span_content t = t
    \<and> (read_text ''jetbrains_research_jbr.html'' w = Inr t \<and> generate_jbr_data w = (None, w')
         \<longrightarrow> out_entry w' ''jetbrains_research_jbr.html'' = Some (File t))
    \<and> (read_text ''jetbrains_research_span.html'' v = Inr t \<and> generate_span_data v = (None, v')
         \<longrightarrow> out_entry v' ''jetbrains_research_span.html'' = Some (File t))"
proof -
  have j: "jbr_content t = t" using assms by (rule jbr_content_identity)
  have s: "span_content t = t" using assms(1-3) by (rule span_content_identity)
  show ?thesis
    using j s generate_jbr_data_written [of w w' t] generate_span_data_written [of v v' t]
    by simp
qed

theorem template_without_placeholders_unchanged_witness:
  "\<not> contains ''@TABLE@'' ''<p>no@place@holder</p>''
   \<and> \<not> contains ''@BUILD@'' ''<p>no@place@holder</p>''
   \<and> \<not> contains ''@DATE@'' ''<p>no@place@holder</p>''
   \<and> \<not> contains ''@FILENAME-win@'' ''<p>no@place@holder</p>''
   \<and> \<not> contains ''@FILENAME-mac@'' ''<p>no@place@holder</p>''
   \<and> \<not> contains ''@FILENAME-linux@'' ''<p>no@place@holder</p>''
   \<and> jbr_content ''<p>no@place@holder</p>'' = ''<p>no@place@holder</p>''
   \<and> span_content ''<p>no@place@holder</p>'' = ''<p>no@place@holder</p>''
   \<and> out_entry (snd (generate_jbr_data
         \<lparr>entries = [''jetbrains_research_jbr.html'' \<mapsto> File ''<p>no@place@holder</p>'',
                     ''out'' \<mapsto> Dir Map.empty],
          stdout = []\<rparr>)) ''jetbrains_research_jbr.html''
       = Some (File ''<p>no@place@holder</p>'')
   \<and> out_entry (snd (generate_span_data
         \<lparr>entries = [''jetbrains_research_span.html'' \<mapsto> File ''<p>no@place@holder</p>'',
                     ''out'' \<mapsto> Dir Map.empty],
          stdout = []\<rparr>)) ''jetbrains_research_span.html''
       = Some (File ''<p>no@place@holder</p>'')"
proof -
  let ?t = "''<p>no@place@holder</p>''"
  let ?w = "\<lparr>entries = [''jetbrains_research_jbr.html'' \<mapsto> File ?t, ''out'' \<mapsto> Dir Map.empty],
             stdout = []\<rparr>"
  let ?v = "\<lparr>entries = [''jetbrains_research_span.html'' \<mapsto> File ?t, ''out'' \<mapsto> Dir Map.empty],
             stdout = []\<rparr>"
  have h: "\<not> contains ''@TABLE@'' ?t" "\<not> contains ''@BUILD@'' ?t" "\<not> contains ''@DATE@'' ?t"
    "\<not> contains ''@FILENAME-win@'' ?t" "\<not> contains ''@FILENAME-mac@'' ?t"
    "\<not> contains ''@FILENAME-linux@'' ?t"
    by simp_all
  have rj: "read_text ''jetbrains_research_jbr.html'' ?w = Inr ?t"
    by (simp add: read_text_def)
  have rs: "read_text ''jetbrains_research_span.html'' ?v = Inr ?t"
    by (simp add: read_text_def)
  have gj: "generate_jbr_data ?w = (None, snd (generate_jbr_data ?w))"
    by (simp add: generate_jbr_data_def Let_def read_text_def and_then_def open_w_def write_close_def
        OUT_FOLDER_def)
  have gs: "generate_span_data ?v = (None, snd (generate_span_data ?v))"
    by (simp add: generate_span_data_def Let_def read_text_def and_then_def open_w_def write_close_def
        OUT_FOLDER_def)
  from template_without_placeholders_unchanged
         [OF h, of ?w "snd (generate_jbr_data ?w)" ?v "snd (generate_span_data ?v)"]
       h rj rs gj gs
  show ?thesis by blast
qed

section \<open>Runs without a template, runs from the same templates\<close>

lemma out_entry_not_dir: "entries w OUT_FOLDER = Some (File c) \<Longrightarrow> out_entry w name = None"
  by (simp add: out_entry_def)

lemma cli_without_jbr_template:
  assumes "entries w ''jetbrains_research_jbr.html'' = None"
  shows "fst (cli w) \<noteq> None
    \<and> out_entry (snd (cli w)) ''jetbrains_research_jbr.html'' = None
    \<and> out_entry (snd (cli w)) ''jetbrains_research_span.html'' = None"
proof (cases "\<exists>c. entries w OUT_FOLDER = Some (File c)")
  case True
  then obtain c where c: "entries w OUT_FOLDER = Some (File c)" by blast
  show ?thesis
    unfolding cli_raises_at_prepare [OF c] using out_entry_not_dir [OF c] by simp
next
  case False
  then have nofile: "\<forall>c. entries w OUT_FOLDER \<noteq> Some (File c)" by blast
  from assms have r: "read_text ''jetbrains_research_jbr.html'' w = Inl FileNotFoundError"
    by (rule read_text_absent)
  show ?thesis
    unfolding cli_raises_at_jbr [OF nofile r] by (simp add: out_entry_def)
qed

lemma cli_without_span_template:
  assumes "entries w ''jetbrains_research_span.html'' = None"
  shows "fst (cli w) \<noteq> None \<and> out_entry (snd (cli w)) ''jetbrains_research_span.html'' = None"
proof (cases "\<exists>c. entries w OUT_FOLDER = Some (File c)")
  case True
  then obtain c where c: "entries w OUT_FOLDER = Some (File c)" by blast
  show ?thesis
    unfolding cli_raises_at_prepare [OF c] using out_entry_not_dir [OF c] by simp
next
  case False
  then have nofile: "\<forall>c. entries w OUT_FOLDER \<noteq> Some (File c)" by blast
  from assms have s: "read_text ''jetbrains_research_span.html'' w = Inl FileNotFoundError"
    by (rule read_text_absent)
  show ?thesis
  proof (cases "read_text ''jetbrains_research_jbr.html'' w")
    case (Inl e)
    show ?thesis
      unfolding cli_raises_at_jbr [OF nofile Inl] by (simp add: out_entry_def)
  next
    case (Inr tj)
    show ?thesis
      unfolding cli_raises_at_span [OF nofile Inr s] by (simp add: out_entry_def)
  qed
qed

lemma cli_returns_entries:
  assumes "cli w = (None, w')"
  shows "\<exists>tj ts. read_text ''jetbrains_research_jbr.html'' w = Inr tj
     \<and> read_text ''jetbrains_research_span.html'' w = Inr ts
     \<and> entries w' = (entries w)(OUT_FOLDER \<mapsto>
           Dir [''jetbrains_research_jbr.html'' \<mapsto> File (jbr_content tj),
                ''jetbrains_research_span.html'' \<mapsto> File (span_content ts)])"
proof -
  from cli_returns_only_if [OF assms] obtain tj ts
    where nofile: "\<forall>c. entries w OUT_FOLDER \<noteq> Some (File c)"
      and tj: "read_text ''jetbrains_research_jbr.html'' w = Inr tj"
      and ts: "read_text ''jetbrains_research_span.html'' w = Inr ts"
    by blast
  from cli_returns [OF nofile tj ts] assms
  have "entries w' = (entries w)(OUT_FOLDER \<mapsto>
           Dir [''jetbrains_research_jbr.html'' \<mapsto> File (jbr_content tj),
                ''jetbrains_research_span.html'' \<mapsto> File (span_content ts)])"
    by auto
  with tj ts show ?thesis by blast
qed

lemma cli_same_templates:
  assumes "cli w = (None, w')" and "cli v = (None, v')"
    and "entries w ''jetbrains_research_jbr.html'' = entries v ''jetbrains_research_jbr.html''"
    and "entries w ''jetbrains_research_span.html'' = entries v ''jetbrains_research_span.html''"
  shows "entries w' OUT_FOLDER = entries v' OUT_FOLDER"
proof -
  from cli_returns_entries [OF assms(1)] obtain tj ts
    where w: "read_text ''jetbrains_research_jbr.html'' w = Inr tj"
      "read_text ''jetbrains_research_span.html'' w = Inr ts"
      "entries w' = (entries w)(OUT_FOLDER \<mapsto>
           Dir [''jetbrains_research_jbr.html'' \<mapsto> File (jbr_content tj),
                ''jetbrains_research_span.html'' \<mapsto> File (span_content ts)])"
    by blast
  from cli_returns_entries [OF assms(2)] obtain uj us
    where v: "read_text ''jetbrains_research_jbr.html'' v = Inr uj"
      "read_text ''jetbrains_research_span.html'' v = Inr us"
      "entries v' = (entries v)(OUT_FOLDER \<mapsto>
           Dir [''jetbrains_research_jbr.html'' \<mapsto> File (jbr_content uj),
                ''jetbrains_research_span.html'' \<mapsto> File (span_content us)])"
    by blast
  from w(1) v(1) read_text_same [OF assms(3)] have "tj = uj" by simp
  moreover from w(2) v(2) read_text_same [OF assms(4)] have "ts = us" by simp
  ultimately show ?thesis using w(3) v(3) by simp
qed

lemma cli_again:
  assumes "cli w = (None, w')"
  shows "\<exists>w''. cli w' = (None, w'') \<and> entries w'' = entries w'"
proof -
  from cli_returns_entries [OF assms] obtain tj ts
    where w: "read_text ''jetbrains_research_jbr.html'' w = Inr tj"
      "read_text ''jetbrains_research_span.html'' w = Inr ts"
      "entries w' = (entries w)(OUT_FOLDER \<mapsto>
           Dir [''jetbrains_research_jbr.html'' \<mapsto> File (jbr_content tj),
                ''jetbrains_research_span.html'' \<mapsto> File (span_content ts)])"
    by blast
  from w(3) have nofile: "\<forall>c. entries w' OUT_FOLDER \<noteq> Some (File c)" by simp
  from w have tj: "read_text ''jetbrains_research_jbr.html'' w' = Inr tj"
    by (simp add: read_text_def OUT_FOLDER_def)
  from w have ts: "read_text ''jetbrains_research_span.html'' w' = Inr ts"
    by (simp add: read_text_def OUT_FOLDER_def)
  show ?thesis
    unfolding cli_returns [OF nofile tj ts] using w(3) by simp
qed

section \<open>Claims about runs\<close>

text \<open>
  C6. The output directory preparer calls \<open>rmtree\<close> exactly when the path exists: on an
  absent path \<open>rmtree\<close> would raise and is not called, on a directory it removes the
  entry with everything beneath it. Then \<open>mkdir\<close> creates the directory with no
  entries. After a run of the entry point that returns, the output directory holds the two
  generated files under the names of their templates and nothing else, whatever it held
  before.
\<close>

theorem out_folder_recreated:
  "(entries w OUT_FOLDER = None \<longrightarrow>
      \<not> path_exists OUT_FOLDER w \<and> rmtree OUT_FOLDER w = (Some FileNotFoundError, w)
      \<and> prepare_out_folder w = mkdir OUT_FOLDER w)
   \<and> (entries w OUT_FOLDER = Some (Dir d) \<longrightarrow>
      path_exists OUT_FOLDER w \<and> fst (rmtree OUT_FOLDER w) = None
      \<and> entries (snd (rmtree OUT_FOLDER w)) OUT_FOLDER = None
      \<and> prepare_out_folder w = mkdir OUT_FOLDER (snd (rmtree OUT_FOLDER w)))
   \<and> ((\<forall>c. entries w OUT_FOLDER \<noteq> Some (File c)) \<longrightarrow>
      prepare_out_folder w = (None, w\<lparr>entries := (entries w)(OUT_FOLDER \<mapsto> Dir Map.empty)\<rparr>))
   \<and> (cli w = (None, w') \<longrightarrow>
      (\<exists>tj ts. read_text ''jetbrains_research_jbr.html'' w = Inr tj
         \<and> read_text ''jetbrains_research_span.html'' w = Inr ts
         \<and> entries w' OUT_FOLDER = Some (Dir
             [''jetbrains_research_jbr.html'' \<mapsto> File (jbr_content tj),
              ''jetbrains_research_span.html'' \<mapsto> File (span_content ts)]))
      \<and> (\<forall>name. out_entry w' name \<noteq> None \<longleftrightarrow>
             name = ''jetbrains_research_jbr.html'' \<or> name = ''jetbrains_research_span.html''))"
proof -
  have absent: "entries w OUT_FOLDER = None \<longrightarrow>
      \<not> path_exists OUT_FOLDER w \<and> rmtree OUT_FOLDER w = (Some FileNotFoundError, w)
      \<and> prepare_out_folder w = mkdir OUT_FOLDER w"
    by (simp add: path_exists_def rmtree_def prepare_out_folder_def and_then_def)
  have present: "entries w OUT_FOLDER = Some (Dir d) \<longrightarrow>
      path_exists OUT_FOLDER w \<and> fst (rmtree OUT_FOLDER w) = None
      \<and> entries (snd (rmtree OUT_FOLDER w)) OUT_FOLDER = None
      \<and> prepare_out_folder w = mkdir OUT_FOLDER (snd (rmtree OUT_FOLDER w))"
    by (simp add: path_exists_def rmtree_def prepare_out_folder_def and_then_def)
  have fresh: "(\<forall>c. entries w OUT_FOLDER \<noteq> Some (File c)) \<longrightarrow>
      prepare_out_folder w = (None, w\<lparr>entries := (entries w)(OUT_FOLDER \<mapsto> Dir Map.empty)\<rparr>)"
    using prepare_out_folder_returns by blast
  have run: "cli w = (None, w') \<longrightarrow>
      (\<exists>tj ts. read_text ''jetbrains_research_jbr.html'' w = Inr tj
         \<and> read_text ''jetbrains_research_span.html'' w = Inr ts
         \<and> entries w' OUT_FOLDER = Some (Dir
             [''jetbrains_research_jbr.html'' \<mapsto> File (jbr_content tj),
              ''jetbrains_research_span.html'' \<mapsto> File (span_content ts)]))
      \<and> (\<forall>name. out_entry w' name \<noteq> None \<longleftrightarrow>
             name = ''jetbrains_research_jbr.html'' \<or> name = ''jetbrains_research_span.html'')"
  proof
    assume ok: "cli w = (None, w')"
    from cli_returns_only_if [OF ok] obtain tj ts
      where nofile: "\<forall>c. entries w OUT_FOLDER \<noteq> Some (File c)"
        and tj: "read_text ''jetbrains_research_jbr.html'' w = Inr tj"
        and ts: "read_text ''jetbrains_research_span.html'' w = Inr ts"
      by blast
    from cli_returns [OF nofile tj ts] ok
    have w': "w' = w\<lparr>entries := (entries w)(OUT_FOLDER \<mapsto>
                      Dir [''jetbrains_research_jbr.html'' \<mapsto> File (jbr_content tj),
                           ''jetbrains_research_span.html'' \<mapsto> File (span_content ts)]),
                    stdout := stdout w @ [''Creating JetBrains Research JBR page'',
                                          ''Creating JetBrains Research SPAN page'',
                                          ''Done'']\<rparr>"
      by simp
    have dir: "entries w' OUT_FOLDER = Some (Dir
             [''jetbrains_research_jbr.html'' \<mapsto> File (jbr_content tj),
              ''jetbrains_research_span.html'' \<mapsto> File (span_content ts)])"
      unfolding w' by simp
    have "\<forall>name. out_entry w' name \<noteq> None \<longleftrightarrow>
             name = ''jetbrains_research_jbr.html'' \<or> name = ''jetbrains_research_span.html''"
      unfolding out_entry_def dir by simp
    with tj ts dir show "(\<exists>tj ts. read_text ''jetbrains_research_jbr.html'' w = Inr tj
         \<and> read_text ''jetbrains_research_span.html'' w = Inr ts
         \<and> entries w' OUT_FOLDER = Some (Dir
             [''jetbrains_research_jbr.html'' \<mapsto> File (jbr_content tj),
              ''jetbrains_research_span.html'' \<mapsto> File (span_content ts)]))
      \<and> (\<forall>name. out_entry w' name \<noteq> None \<longleftrightarrow>
             name = ''jetbrains_research_jbr.html'' \<or> name = ''jetbrains_research_span.html'')"
      by blast
  qed
  from absent present fresh run show ?thesis by blast
qed

theorem out_folder_recreated_witness:
  "entries \<lparr>entries = [''jetbrains_research_jbr.html'' \<mapsto> File ''<b>@BUILD@</b>'',
                        ''jetbrains_research_span.html'' \<mapsto> File ''<i>@DATE@</i>'',
                        ''out'' \<mapsto> Dir [''stale.html'' \<mapsto> File ''old'',
                                         ''stale_dir'' \<mapsto> Dir Map.empty]],
            stdout = []\<rparr> OUT_FOLDER
     = Some (Dir [''stale.html'' \<mapsto> File ''old'', ''stale_dir'' \<mapsto> Dir Map.empty])
   \<and> fst (cli \<lparr>entries = [''jetbrains_research_jbr.html'' \<mapsto> File ''<b>@BUILD@</b>'',
                        ''jetbrains_research_span.html'' \<mapsto> File ''<i>@DATE@</i>'',
                        ''out'' \<mapsto> Dir [''stale.html'' \<mapsto> File ''old'',
                                         ''stale_dir'' \<mapsto> Dir Map.empty]],
            stdout = []\<rparr>) = None
   \<and> entries (snd (cli \<lparr>entries = [''jetbrains_research_jbr.html'' \<mapsto> File ''<b>@BUILD@</b>'',
                        ''jetbrains_research_span.html'' \<mapsto> File ''<i>@DATE@</i>'',
                        ''out'' \<mapsto> Dir [''stale.html'' \<mapsto> File ''old'',
                                         ''stale_dir'' \<mapsto> Dir Map.empty]],
            stdout = []\<rparr>)) OUT_FOLDER
     = Some (Dir [''jetbrains_research_jbr.html'' \<mapsto> File ''<b>1.0.beta.4882</b>'',
                  ''jetbrains_research_span.html'' \<mapsto> File ''<i>May 17, 2019</i>''])
   \<and> out_entry (snd (cli \<lparr>entries = [''jetbrains_research_jbr.html'' \<mapsto> File ''<b>@BUILD@</b>'',
                        ''jetbrains_research_span.html'' \<mapsto> File ''<i>@DATE@</i>'',
                        ''out'' \<mapsto> Dir [''stale.html'' \<mapsto> File ''old'',
                                         ''stale_dir'' \<mapsto> Dir Map.empty]],
            stdout = []\<rparr>)) ''stale.html'' = None"
proof -
  let ?stale = "[''stale.html'' \<mapsto> File ''old'', ''stale_dir'' \<mapsto> Dir Map.empty]"
  let ?w = "\<lparr>entries = [''jetbrains_research_jbr.html'' \<mapsto> File ''<b>@BUILD@</b>'',
                        ''jetbrains_research_span.html'' \<mapsto> File ''<i>@DATE@</i>'',
                        ''out'' \<mapsto> Dir ?stale],
            stdout = []\<rparr>"
  have out: "entries ?w OUT_FOLDER = Some (Dir ?stale)" by (simp add: OUT_FOLDER_def)
  then have nofile: "\<forall>c. entries ?w OUT_FOLDER \<noteq> Some (File c)" by simp
  have rj: "read_text ''jetbrains_research_jbr.html'' ?w = Inr ''<b>@BUILD@</b>''"
    by (simp add: read_text_def)
  have rs: "read_text ''jetbrains_research_span.html'' ?w = Inr ''<i>@DATE@</i>''"
    by (simp add: read_text_def)
  have ok: "cli ?w = (None, snd (cli ?w))"
    unfolding cli_returns [OF nofile rj rs] by simp
  have cj: "jbr_content ''<b>@BUILD@</b>'' = ''<b>1.0.beta.4882</b>''"
    by (simp add: jbr_content_unfold)
  have cs: "span_content ''<i>@DATE@</i>'' = ''<i>May 17, 2019</i>''"
    by (simp add: span_content_unfold)
  note run = out_folder_recreated [of ?w ?stale "snd (cli ?w)",
      THEN conjunct2, THEN conjunct2, THEN conjunct2, THEN mp, OF ok]
  from run [THEN conjunct1] obtain tj where "\<exists>ts.
        read_text ''jetbrains_research_jbr.html'' ?w = Inr tj
      \<and> read_text ''jetbrains_research_span.html'' ?w = Inr ts
      \<and> entries (snd (cli ?w)) OUT_FOLDER = Some (Dir
             [''jetbrains_research_jbr.html'' \<mapsto> File (jbr_content tj),
              ''jetbrains_research_span.html'' \<mapsto> File (span_content ts)])" ..
  then obtain ts where c: "read_text ''jetbrains_research_jbr.html'' ?w = Inr tj
      \<and> read_text ''jetbrains_research_span.html'' ?w = Inr ts
      \<and> entries (snd (cli ?w)) OUT_FOLDER = Some (Dir
             [''jetbrains_research_jbr.html'' \<mapsto> File (jbr_content tj),
              ''jetbrains_research_span.html'' \<mapsto> File (span_content ts)])" ..
  from c [THEN conjunct1] rj have tj: "tj = ''<b>@BUILD@</b>''" by simp
  from c [THEN conjunct2, THEN conjunct1] rs have ts: "ts = ''<i>@DATE@</i>''" by simp
  have dir: "entries (snd (cli ?w)) OUT_FOLDER = Some (Dir
             [''jetbrains_research_jbr.html'' \<mapsto> File ''<b>1.0.beta.4882</b>'',
              ''jetbrains_research_span.html'' \<mapsto> File ''<i>May 17, 2019</i>''])"
    using c [THEN conjunct2, THEN conjunct2] unfolding tj ts cj cs .
  from run [THEN conjunct2, THEN spec, of "''stale.html''"]
  have gone: "out_entry (snd (cli ?w)) ''stale.html'' = None" by simp
  have ret: "fst (cli ?w) = None"
    unfolding cli_returns [OF nofile rj rs] by simp
  from out ret dir gone show ?thesis by (intro conjI)
qed

text \<open>
  C7. If the template of a generator is absent, the generator raises at the read, before
  it opens its output file, and leaves every file as it was. If the JBR template is absent,
  the run of the entry point raises, the output directory holds neither page afterwards,
  and the run is the run of the steps up to the JBR generator: the SPAN progress line is
  not printed and the SPAN generator is not run, whether its template exists or not. If
  the SPAN template is absent, the run raises and no SPAN page is written.
\<close>

theorem missing_template_aborts:
  "(entries w ''jetbrains_research_jbr.html'' = None \<longrightarrow>
      generate_jbr_data w = (Some FileNotFoundError, w))
   \<and> (entries w ''jetbrains_research_span.html'' = None \<longrightarrow>
      generate_span_data w = (Some FileNotFoundError, w))
   \<and> (entries w ''jetbrains_research_jbr.html'' = None \<longrightarrow>
      fst (cli w) \<noteq> None
      \<and> out_entry (snd (cli w)) ''jetbrains_research_jbr.html'' = None
      \<and> out_entry (snd (cli w)) ''jetbrains_research_span.html'' = None
      \<and> cli w = and_then prepare_out_folder
                   (and_then (print ''Creating JetBrains Research JBR page'') generate_jbr_data) w)
   \<and> (entries w ''jetbrains_research_jbr.html'' = None
        \<and> (\<forall>c. entries w OUT_FOLDER \<noteq> Some (File c)) \<longrightarrow>
      cli w = (Some FileNotFoundError,
               w\<lparr>entries := (entries w)(OUT_FOLDER \<mapsto> Dir Map.empty),
                  stdout := stdout w @ [''Creating JetBrains Research JBR page'']\<rparr>))
   \<and> (entries w ''jetbrains_research_span.html'' = None \<longrightarrow>
      fst (cli w) \<noteq> None \<and> out_entry (snd (cli w)) ''jetbrains_research_span.html'' = None)"
proof (intro conjI impI)
  assume "entries w ''jetbrains_research_jbr.html'' = None"
  then have r: "read_text ''jetbrains_research_jbr.html'' w = Inl FileNotFoundError"
    by (rule read_text_absent)
  then show "generate_jbr_data w = (Some FileNotFoundError, w)"
    by (rule generate_jbr_data_raises_at_read)
next
  assume "entries w ''jetbrains_research_span.html'' = None"
  then have "read_text ''jetbrains_research_span.html'' w = Inl FileNotFoundError"
    by (rule read_text_absent)
  then show "generate_span_data w = (Some FileNotFoundError, w)"
    by (rule generate_span_data_raises_at_read)
next
  assume a: "entries w ''jetbrains_research_jbr.html'' = None"
  from cli_without_jbr_template [OF a] show "fst (cli w) \<noteq> None" by (rule conjunct1)
next
  assume a: "entries w ''jetbrains_research_jbr.html'' = None"
  from cli_without_jbr_template [OF a]
  show "out_entry (snd (cli w)) ''jetbrains_research_jbr.html'' = None"
    by (elim conjE)
next
  assume a: "entries w ''jetbrains_research_jbr.html'' = None"
  from cli_without_jbr_template [OF a]
  show "out_entry (snd (cli w)) ''jetbrains_research_span.html'' = None"
    by (elim conjE)
next
  assume "entries w ''jetbrains_research_jbr.html'' = None"
  then have "read_text ''jetbrains_research_jbr.html'' w = Inl FileNotFoundError"
    by (rule read_text_absent)
  then show "cli w = and_then prepare_out_folder
                   (and_then (print ''Creating JetBrains Research JBR page'') generate_jbr_data) w"
    by (rule cli_truncated_at_jbr)
next
  assume a: "entries w ''jetbrains_research_jbr.html'' = None
        \<and> (\<forall>c. entries w OUT_FOLDER \<noteq> Some (File c))"
  then have "read_text ''jetbrains_research_jbr.html'' w = Inl FileNotFoundError"
    by (simp add: read_text_absent)
  with a show "cli w = (Some FileNotFoundError,
               w\<lparr>entries := (entries w)(OUT_FOLDER \<mapsto> Dir Map.empty),
                  stdout := stdout w @ [''Creating JetBrains Research JBR page'']\<rparr>)"
    using cli_raises_at_jbr by blast
next
  assume a: "entries w ''jetbrains_research_span.html'' = None"
  from cli_without_span_template [OF a] show "fst (cli w) \<noteq> None" by (rule conjunct1)
next
  assume a: "entries w ''jetbrains_research_span.html'' = None"
  from cli_without_span_template [OF a]
  show "out_entry (snd (cli w)) ''jetbrains_research_span.html'' = None" by (rule conjunct2)
qed

theorem missing_template_aborts_witness:
  "entries \<lparr>entries = [''jetbrains_research_span.html'' \<mapsto> File ''<i>@DATE@</i>''],
            stdout = []\<rparr> ''jetbrains_research_jbr.html'' = None
   \<and> (\<forall>c. entries \<lparr>entries = [''jetbrains_research_span.html'' \<mapsto> File ''<i>@DATE@</i>''],
                     stdout = []\<rparr> OUT_FOLDER \<noteq> Some (File c))
   \<and> generate_jbr_data \<lparr>entries = [''jetbrains_research_span.html'' \<mapsto> File ''<i>@DATE@</i>''],
                         stdout = []\<rparr>
       = (Some FileNotFoundError,
          \<lparr>entries = [''jetbrains_research_span.html'' \<mapsto> File ''<i>@DATE@</i>''],
           stdout = []\<rparr>)
   \<and> cli \<lparr>entries = [''jetbrains_research_span.html'' \<mapsto> File ''<i>@DATE@</i>''],
           stdout = []\<rparr>
       = (Some FileNotFoundError,
          \<lparr>entries = [''jetbrains_research_span.html'' \<mapsto> File ''<i>@DATE@</i>'',
                      ''out'' \<mapsto> Dir Map.empty],
           stdout = [''Creating JetBrains Research JBR page'']\<rparr>)
   \<and> entries \<lparr>entries = [''jetbrains_research_jbr.html'' \<mapsto> File ''<b>@BUILD@</b>''],
              stdout = []\<rparr> ''jetbrains_research_span.html'' = None
   \<and> generate_span_data \<lparr>entries = [''jetbrains_research_jbr.html'' \<mapsto> File ''<b>@BUILD@</b>''],
                          stdout = []\<rparr>
       = (Some FileNotFoundError,
          \<lparr>entries = [''jetbrains_research_jbr.html'' \<mapsto> File ''<b>@BUILD@</b>''],
           stdout = []\<rparr>)
   \<and> fst (cli \<lparr>entries = [''jetbrains_research_jbr.html'' \<mapsto> File ''<b>@BUILD@</b>''],
                stdout = []\<rparr>) \<noteq> None
   \<and> out_entry (snd (cli \<lparr>entries = [''jetbrains_research_jbr.html'' \<mapsto> File ''<b>@BUILD@</b>''],
                           stdout = []\<rparr>)) ''jetbrains_research_span.html'' = None"
proof -
  let ?a = "\<lparr>entries = [''jetbrains_research_span.html'' \<mapsto> File ''<i>@DATE@</i>''],
             stdout = []\<rparr>"
  let ?b = "\<lparr>entries = [''jetbrains_research_jbr.html'' \<mapsto> File ''<b>@BUILD@</b>''],
             stdout = []\<rparr>"
  have a: "entries ?a ''jetbrains_research_jbr.html'' = None"
    "\<forall>c. entries ?a OUT_FOLDER \<noteq> Some (File c)"
    by (simp_all add: OUT_FOLDER_def)
  have b: "entries ?b ''jetbrains_research_span.html'' = None"
    by simp
  note ta = missing_template_aborts [of ?a]
  note tb = missing_template_aborts [of ?b]
  from ta [THEN conjunct1, THEN mp, OF a(1)]
  have 1: "generate_jbr_data ?a = (Some FileNotFoundError, ?a)" .
  from ta [THEN conjunct2, THEN conjunct2, THEN conjunct2, THEN conjunct1, THEN mp,
           OF conjI, OF a(1) a(2)]
  have 2: "cli ?a = (Some FileNotFoundError,
          \<lparr>entries = [''jetbrains_research_span.html'' \<mapsto> File ''<i>@DATE@</i>'',
                      ''out'' \<mapsto> Dir Map.empty],
           stdout = [''Creating JetBrains Research JBR page'']\<rparr>)"
    by (simp add: OUT_FOLDER_def)
  from tb [THEN conjunct2, THEN conjunct1, THEN mp, OF b]
  have 3: "generate_span_data ?b = (Some FileNotFoundError, ?b)" .
  from tb [THEN conjunct2, THEN conjunct2, THEN conjunct2, THEN conjunct2, THEN mp, OF b]
  have 4: "fst (cli ?b) \<noteq> None \<and> out_entry (snd (cli ?b)) ''jetbrains_research_span.html'' = None" .
  from a 1 2 b 3 4 show ?thesis by (intro conjI) (elim conjE | assumption)+
qed

text \<open>
  C8. Two runs of the entry point that both return, from worlds with the same two
  templates, leave the same output directory, whatever else the worlds hold (an old output
  directory, earlier output on standard output). A second run, from the world the first
  one leaves, returns and leaves every file as the first one left it. The file a generator
  writes is \<open>jbr_content\<close> or \<open>span_content\<close> of the template text, a function of the
  template text and of the constants of the script.
\<close>

theorem runs_are_reproducible:
  "(cli w = (None, w') \<and> cli v = (None, v')
      \<and> entries w ''jetbrains_research_jbr.html'' = entries v ''jetbrains_research_jbr.html''
      \<and> entries w ''jetbrains_research_span.html'' = entries v ''jetbrains_research_span.html''
     \<longrightarrow> entries w' OUT_FOLDER = entries v' OUT_FOLDER)
   \<and> (cli w = (None, w') \<longrightarrow> (\<exists>w''. cli w' = (None, w'') \<and> entries w'' = entries w'))
   \<and> (generate_jbr_data w = (None, w') \<and> generate_jbr_data v = (None, v')
      \<and> read_text ''jetbrains_research_jbr.html'' w = Inr t
      \<and> read_text ''jetbrains_research_jbr.html'' v = Inr t
     \<longrightarrow> out_entry w' ''jetbrains_research_jbr.html'' = Some (File (jbr_content t))
       \<and> out_entry v' ''jetbrains_research_jbr.html'' = Some (File (jbr_content t)))
   \<and> (generate_span_data w = (None, w') \<and> generate_span_data v = (None, v')
      \<and> read_text ''jetbrains_research_span.html'' w = Inr t
      \<and> read_text ''jetbrains_research_span.html'' v = Inr t
     \<longrightarrow> out_entry w' ''jetbrains_research_span.html'' = Some (File (span_content t))
       \<and> out_entry v' ''jetbrains_research_span.html'' = Some (File (span_content t)))"
proof (intro conjI impI)
  assume "cli w = (None, w') \<and> cli v = (None, v')
      \<and> entries w ''jetbrains_research_jbr.html'' = entries v ''jetbrains_research_jbr.html''
      \<and> entries w ''jetbrains_research_span.html'' = entries v ''jetbrains_research_span.html''"
  then show "entries w' OUT_FOLDER = entries v' OUT_FOLDER"
    using cli_same_templates by blast
next
  assume "cli w = (None, w')"
  then show "\<exists>w''. cli w' = (None, w'') \<and> entries w'' = entries w'"
    by (rule cli_again)
next
  assume "generate_jbr_data w = (None, w') \<and> generate_jbr_data v = (None, v')
      \<and> read_text ''jetbrains_research_jbr.html'' w = Inr t
      \<and> read_text ''jetbrains_research_jbr.html'' v = Inr t"
  then show "out_entry w' ''jetbrains_research_jbr.html'' = Some (File (jbr_content t))"
    using generate_jbr_data_written by blast
next
  assume "generate_jbr_data w = (None, w') \<and> generate_jbr_data v = (None, v')
      \<and> read_text ''jetbrains_research_jbr.html'' w = Inr t
      \<and> read_text ''jetbrains_research_jbr.html'' v = Inr t"
  then show "out_entry v' ''jetbrains_research_jbr.html'' = Some (File (jbr_content t))"
    using generate_jbr_data_written by blast
next
  assume "generate_span_data w = (None, w') \<and> generate_span_data v = (None, v')
      \<and> read_text ''jetbrains_research_span.html'' w = Inr t
      \<and> read_text ''jetbrains_research_span.html'' v = Inr t"
  then show "out_entry w' ''jetbrains_research_span.html'' = Some (File (span_content t))"
    using generate_span_data_written by blast
next
  assume "generate_span_data w = (None, w') \<and> generate_span_data v = (None, v')
      \<and> read_text ''jetbrains_research_span.html'' w = Inr t
      \<and> read_text ''jetbrains_research_span.html'' v = Inr t"
  then show "out_entry v' ''jetbrains_research_span.html'' = Some (File (span_content t))"
    using generate_span_data_written by blast
qed

theorem runs_are_reproducible_witness:
  "fst (cli \<lparr>entries = [''jetbrains_research_jbr.html'' \<mapsto> File ''<b>@BUILD@</b>'',
                        ''jetbrains_research_span.html'' \<mapsto> File ''<i>@DATE@</i>''],
             stdout = []\<rparr>) = None
   \<and> fst (cli \<lparr>entries = [''jetbrains_research_jbr.html'' \<mapsto> File ''<b>@BUILD@</b>'',
                        ''jetbrains_research_span.html'' \<mapsto> File ''<i>@DATE@</i>'',
                        ''out'' \<mapsto> Dir [''stale.html'' \<mapsto> File ''old'']],
             stdout = [''earlier output'']\<rparr>) = None
   \<and> entries (snd (cli \<lparr>entries = [''jetbrains_research_jbr.html'' \<mapsto> File ''<b>@BUILD@</b>'',
                        ''jetbrains_research_span.html'' \<mapsto> File ''<i>@DATE@</i>''],
             stdout = []\<rparr>)) OUT_FOLDER
     = entries (snd (cli \<lparr>entries = [''jetbrains_research_jbr.html'' \<mapsto> File ''<b>@BUILD@</b>'',
                        ''jetbrains_research_span.html'' \<mapsto> File ''<i>@DATE@</i>'',
                        ''out'' \<mapsto> Dir [''stale.html'' \<mapsto> File ''old'']],
             stdout = [''earlier output'']\<rparr>)) OUT_FOLDER
   \<and> fst (cli (snd (cli \<lparr>entries = [''jetbrains_research_jbr.html'' \<mapsto> File ''<b>@BUILD@</b>'',
                        ''jetbrains_research_span.html'' \<mapsto> File ''<i>@DATE@</i>''],
             stdout = []\<rparr>))) = None
   \<and> entries (snd (cli (snd (cli \<lparr>entries = [''jetbrains_research_jbr.html'' \<mapsto> File ''<b>@BUILD@</b>'',
                        ''jetbrains_research_span.html'' \<mapsto> File ''<i>@DATE@</i>''],
             stdout = []\<rparr>))))
     = entries (snd (cli \<lparr>entries = [''jetbrains_research_jbr.html'' \<mapsto> File ''<b>@BUILD@</b>'',
                        ''jetbrains_research_span.html'' \<mapsto> File ''<i>@DATE@</i>''],
             stdout = []\<rparr>))"
proof -
  let ?w = "\<lparr>entries = [''jetbrains_research_jbr.html'' \<mapsto> File ''<b>@BUILD@</b>'',
                        ''jetbrains_research_span.html'' \<mapsto> File ''<i>@DATE@</i>''],
             stdout = []\<rparr>"
  let ?v = "\<lparr>entries = [''jetbrains_research_jbr.html'' \<mapsto> File ''<b>@BUILD@</b>'',
                        ''jetbrains_research_span.html'' \<mapsto> File ''<i>@DATE@</i>'',
                        ''out'' \<mapsto> Dir [''stale.html'' \<mapsto> File ''old'']],
             stdout = [''earlier output'']\<rparr>"
  have nw: "\<forall>c. entries ?w OUT_FOLDER \<noteq> Some (File c)" by (simp add: OUT_FOLDER_def)
  have nv: "\<forall>c. entries ?v OUT_FOLDER \<noteq> Some (File c)" by (simp add: OUT_FOLDER_def)
  have rw: "read_text ''jetbrains_research_jbr.html'' ?w = Inr ''<b>@BUILD@</b>''"
    "read_text ''jetbrains_research_span.html'' ?w = Inr ''<i>@DATE@</i>''"
    by (simp_all add: read_text_def)
  have rv: "read_text ''jetbrains_research_jbr.html'' ?v = Inr ''<b>@BUILD@</b>''"
    "read_text ''jetbrains_research_span.html'' ?v = Inr ''<i>@DATE@</i>''"
    by (simp_all add: read_text_def)
  have okw: "cli ?w = (None, snd (cli ?w))"
    unfolding cli_returns [OF nw rw] by simp
  have okv: "cli ?v = (None, snd (cli ?v))"
    unfolding cli_returns [OF nv rv] by simp
  have same: "entries ?w ''jetbrains_research_jbr.html'' = entries ?v ''jetbrains_research_jbr.html''"
    "entries ?w ''jetbrains_research_span.html'' = entries ?v ''jetbrains_research_span.html''"
    by simp_all
  note t = runs_are_reproducible [of ?w "snd (cli ?w)" ?v "snd (cli ?v)"]
  from t [THEN conjunct1, THEN mp, OF conjI, OF okw conjI, OF okv conjI, OF same]
  have 1: "entries (snd (cli ?w)) OUT_FOLDER = entries (snd (cli ?v)) OUT_FOLDER" .
  from t [THEN conjunct2, THEN conjunct1, THEN mp, OF okw]
  obtain w'' where again: "cli (snd (cli ?w)) = (None, w'') \<and> entries w'' = entries (snd (cli ?w))" ..
  from again have 2: "fst (cli (snd (cli ?w))) = None" by simp
  from again have 3: "entries (snd (cli (snd (cli ?w)))) = entries (snd (cli ?w))" by simp
  from okw have 4: "fst (cli ?w) = None" by (metis fst_conv)
  from okv have 5: "fst (cli ?v) = None" by (metis fst_conv)
  from 4 5 1 2 3 show ?thesis by (intro conjI)
qed

text \<open>
  C9, as the code has it. The entry point prepares the output directory, prints the JBR
  progress line, runs the JBR generator, prints the SPAN progress line, runs the SPAN
  generator and prints \<open>Done\<close>, in this order; a step is run only if every step before it
  has returned, and nothing else is done. The four cases cover every world: the run stops
  at the preparer with nothing printed, at the JBR generator with the first line printed,
  at the SPAN generator with two lines printed and the JBR page written, or it returns
  with both pages written and the three lines printed.
\<close>

theorem cli_steps_in_order:
  "(entries w OUT_FOLDER = Some (File c) \<longrightarrow> cli w = (Some NotADirectoryError, w))
   \<and> ((\<forall>c. entries w OUT_FOLDER \<noteq> Some (File c))
        \<and> read_text ''jetbrains_research_jbr.html'' w = Inl e \<longrightarrow>
      cli w = (Some e, w\<lparr>entries := (entries w)(OUT_FOLDER \<mapsto> Dir Map.empty),
                          stdout := stdout w @ [''Creating JetBrains Research JBR page'']\<rparr>))
   \<and> ((\<forall>c. entries w OUT_FOLDER \<noteq> Some (File c))
        \<and> read_text ''jetbrains_research_jbr.html'' w = Inr tj
        \<and> read_text ''jetbrains_research_span.html'' w = Inl e \<longrightarrow>
      cli w = (Some e, w\<lparr>entries := (entries w)(OUT_FOLDER \<mapsto>
                            Dir [''jetbrains_research_jbr.html'' \<mapsto> File (jbr_content tj)]),
                          stdout := stdout w @ [''Creating JetBrains Research JBR page'',
                                                ''Creating JetBrains Research SPAN page'']\<rparr>))
   \<and> ((\<forall>c. entries w OUT_FOLDER \<noteq> Some (File c))
        \<and> read_text ''jetbrains_research_jbr.html'' w = Inr tj
        \<and> read_text ''jetbrains_research_span.html'' w = Inr ts \<longrightarrow>
      cli w = (None, w\<lparr>entries := (entries w)(OUT_FOLDER \<mapsto>
                          Dir [''jetbrains_research_jbr.html'' \<mapsto> File (jbr_content tj),
                               ''jetbrains_research_span.html'' \<mapsto> File (span_content ts)]),
                        stdout := stdout w @ [''Creating JetBrains Research JBR page'',
                                              ''Creating JetBrains Research SPAN page'',
                                              ''Done'']\<rparr>))"
proof (intro conjI impI)
  assume "entries w OUT_FOLDER = Some (File c)"
  then show "cli w = (Some NotADirectoryError, w)" by (rule cli_raises_at_prepare)
next
  assume a: "(\<forall>c. entries w OUT_FOLDER \<noteq> Some (File c))
        \<and> read_text ''jetbrains_research_jbr.html'' w = Inl e"
  from cli_raises_at_jbr [OF a [THEN conjunct1] a [THEN conjunct2]]
  show "cli w = (Some e, w\<lparr>entries := (entries w)(OUT_FOLDER \<mapsto> Dir Map.empty),
                          stdout := stdout w @ [''Creating JetBrains Research JBR page'']\<rparr>)" .
next
  assume a: "(\<forall>c. entries w OUT_FOLDER \<noteq> Some (File c))
        \<and> read_text ''jetbrains_research_jbr.html'' w = Inr tj
        \<and> read_text ''jetbrains_research_span.html'' w = Inl e"
  from cli_raises_at_span [OF a [THEN conjunct1] a [THEN conjunct2, THEN conjunct1]
      a [THEN conjunct2, THEN conjunct2]]
  show "cli w = (Some e, w\<lparr>entries := (entries w)(OUT_FOLDER \<mapsto>
                            Dir [''jetbrains_research_jbr.html'' \<mapsto> File (jbr_content tj)]),
                          stdout := stdout w @ [''Creating JetBrains Research JBR page'',
                                                ''Creating JetBrains Research SPAN page'']\<rparr>)" .
next
  assume a: "(\<forall>c. entries w OUT_FOLDER \<noteq> Some (File c))
        \<and> read_text ''jetbrains_research_jbr.html'' w = Inr tj
        \<and> read_text ''jetbrains_research_span.html'' w = Inr ts"
  from cli_returns [OF a [THEN conjunct1] a [THEN conjunct2, THEN conjunct1]
      a [THEN conjunct2, THEN conjunct2]]
  show "cli w = (None, w\<lparr>entries := (entries w)(OUT_FOLDER \<mapsto>
                          Dir [''jetbrains_research_jbr.html'' \<mapsto> File (jbr_content tj),
                               ''jetbrains_research_span.html'' \<mapsto> File (span_content ts)]),
                        stdout := stdout w @ [''Creating JetBrains Research JBR page'',
                                              ''Creating JetBrains Research SPAN page'',
                                              ''Done'']\<rparr>)" .
qed

theorem cli_steps_in_order_witness:
  "cli \<lparr>entries = [''out'' \<mapsto> File ''not a directory''], stdout = []\<rparr>
     = (Some NotADirectoryError,
        \<lparr>entries = [''out'' \<mapsto> File ''not a directory''], stdout = []\<rparr>)
   \<and> cli \<lparr>entries = [''jetbrains_research_span.html'' \<mapsto> File ''<i>@DATE@</i>''],
           stdout = []\<rparr>
     = (Some FileNotFoundError,
        \<lparr>entries = [''jetbrains_research_span.html'' \<mapsto> File ''<i>@DATE@</i>'',
                    ''out'' \<mapsto> Dir Map.empty],
         stdout = [''Creating JetBrains Research JBR page'']\<rparr>)
   \<and> cli \<lparr>entries = [''jetbrains_research_jbr.html'' \<mapsto> File ''<b>@BUILD@</b>''],
           stdout = []\<rparr>
     = (Some FileNotFoundError,
        \<lparr>entries = [''jetbrains_research_jbr.html'' \<mapsto> File ''<b>@BUILD@</b>'',
                    ''out'' \<mapsto> Dir [''jetbrains_research_jbr.html'' \<mapsto>
                                     File ''<b>1.0.beta.4882</b>'']],
         stdout = [''Creating JetBrains Research JBR page'',
                   ''Creating JetBrains Research SPAN page'']\<rparr>)
   \<and> cli \<lparr>entries = [''jetbrains_research_jbr.html'' \<mapsto> File ''<b>@BUILD@</b>'',
                      ''jetbrains_research_span.html'' \<mapsto> File ''<i>@DATE@</i>''],
           stdout = []\<rparr>
     = (None,
        \<lparr>entries = [''jetbrains_research_jbr.html'' \<mapsto> File ''<b>@BUILD@</b>'',
                    ''jetbrains_research_span.html'' \<mapsto> File ''<i>@DATE@</i>'',
                    ''out'' \<mapsto> Dir [''jetbrains_research_jbr.html'' \<mapsto>
                                     File ''<b>1.0.beta.4882</b>'',
                                   ''jetbrains_research_span.html'' \<mapsto>
                                     File ''<i>May 17, 2019</i>'']],
         stdout = [''Creating JetBrains Research JBR page'',
                   ''Creating JetBrains Research SPAN page'', ''Done'']\<rparr>)"
proof -
  let ?w1 = "\<lparr>entries = [''out'' \<mapsto> File ''not a directory''], stdout = []\<rparr>"
  let ?w2 = "\<lparr>entries = [''jetbrains_research_span.html'' \<mapsto> File ''<i>@DATE@</i>''],
              stdout = []\<rparr>"
  let ?w3 = "\<lparr>entries = [''jetbrains_research_jbr.html'' \<mapsto> File ''<b>@BUILD@</b>''],
              stdout = []\<rparr>"
  let ?w4 = "\<lparr>entries = [''jetbrains_research_jbr.html'' \<mapsto> File ''<b>@BUILD@</b>'',
                         ''jetbrains_research_span.html'' \<mapsto> File ''<i>@DATE@</i>''],
              stdout = []\<rparr>"
  have cj: "jbr_content ''<b>@BUILD@</b>'' = ''<b>1.0.beta.4882</b>''"
    by (simp add: jbr_content_unfold)
  have cs: "span_content ''<i>@DATE@</i>'' = ''<i>May 17, 2019</i>''"
    by (simp add: span_content_unfold)
  have h1: "entries ?w1 OUT_FOLDER = Some (File ''not a directory'')"
    by (simp add: OUT_FOLDER_def)
  have h2: "(\<forall>c. entries ?w2 OUT_FOLDER \<noteq> Some (File c))
        \<and> read_text ''jetbrains_research_jbr.html'' ?w2 = Inl FileNotFoundError"
    by (simp add: OUT_FOLDER_def read_text_def)
  have h3: "(\<forall>c. entries ?w3 OUT_FOLDER \<noteq> Some (File c))
        \<and> read_text ''jetbrains_research_jbr.html'' ?w3 = Inr ''<b>@BUILD@</b>''
        \<and> read_text ''jetbrains_research_span.html'' ?w3 = Inl FileNotFoundError"
    by (simp add: OUT_FOLDER_def read_text_def)
  have h4: "(\<forall>c. entries ?w4 OUT_FOLDER \<noteq> Some (File c))
        \<and> read_text ''jetbrains_research_jbr.html'' ?w4 = Inr ''<b>@BUILD@</b>''
        \<and> read_text ''jetbrains_research_span.html'' ?w4 = Inr ''<i>@DATE@</i>''"
    by (simp add: OUT_FOLDER_def read_text_def)
  from cli_steps_in_order [of ?w1 "''not a directory''", THEN conjunct1, THEN mp, OF h1]
  have 1: "cli ?w1 = (Some NotADirectoryError, ?w1)" .
  from cli_steps_in_order [of ?w2 _ FileNotFoundError, THEN conjunct2, THEN conjunct1, THEN mp, OF h2]
  have 2: "cli ?w2 = (Some FileNotFoundError,
        \<lparr>entries = [''jetbrains_research_span.html'' \<mapsto> File ''<i>@DATE@</i>'',
                    ''out'' \<mapsto> Dir Map.empty],
         stdout = [''Creating JetBrains Research JBR page'']\<rparr>)"
    by (simp add: OUT_FOLDER_def)
  from cli_steps_in_order [of ?w3 _ FileNotFoundError "''<b>@BUILD@</b>''",
      THEN conjunct2, THEN conjunct2, THEN conjunct1, THEN mp, OF h3]
  have 3: "cli ?w3 = (Some FileNotFoundError,
        \<lparr>entries = [''jetbrains_research_jbr.html'' \<mapsto> File ''<b>@BUILD@</b>'',
                    ''out'' \<mapsto> Dir [''jetbrains_research_jbr.html'' \<mapsto>
                                     File ''<b>1.0.beta.4882</b>'']],
         stdout = [''Creating JetBrains Research JBR page'',
                   ''Creating JetBrains Research SPAN page'']\<rparr>)"
    by (simp add: OUT_FOLDER_def cj)
  from cli_steps_in_order [of ?w4 _ _ "''<b>@BUILD@</b>''" "''<i>@DATE@</i>''",
      THEN conjunct2, THEN conjunct2, THEN conjunct2, THEN mp, OF h4]
  have 4: "cli ?w4 = (None,
        \<lparr>entries = [''jetbrains_research_jbr.html'' \<mapsto> File ''<b>@BUILD@</b>'',
                    ''jetbrains_research_span.html'' \<mapsto> File ''<i>@DATE@</i>'',
                    ''out'' \<mapsto> Dir [''jetbrains_research_jbr.html'' \<mapsto>
                                     File ''<b>1.0.beta.4882</b>'',
                                   ''jetbrains_research_span.html'' \<mapsto>
                                     File ''<i>May 17, 2019</i>'']],
         stdout = [''Creating JetBrains Research JBR page'',
                   ''Creating JetBrains Research SPAN page'', ''Done'']\<rparr>)"
    by (simp add: OUT_FOLDER_def cj cs)
  from 1 2 3 4 show ?thesis by (intro conjI)
qed

text \<open>
  C9, as it is worded, puts the three \<open>print\<close> calls behind both generators
  (\<open>cli_spec_order\<close>). In the world with no template the code has printed the JBR progress
  line when the JBR generator raises; in the worded order nothing has been printed.
\<close>

theorem cli_order_counterexample:
  "cli \<lparr>entries = Map.empty, stdout = []\<rparr>
     = (Some FileNotFoundError,
        \<lparr>entries = [''out'' \<mapsto> Dir Map.empty],
         stdout = [''Creating JetBrains Research JBR page'']\<rparr>)
   \<and> cli_spec_order \<lparr>entries = Map.empty, stdout = []\<rparr>
     = (Some FileNotFoundError, \<lparr>entries = [''out'' \<mapsto> Dir Map.empty], stdout = []\<rparr>)
   \<and> cli \<lparr>entries = Map.empty, stdout = []\<rparr>
     \<noteq> cli_spec_order \<lparr>entries = Map.empty, stdout = []\<rparr>"
proof -
  let ?w = "\<lparr>entries = Map.empty, stdout = []\<rparr>"
  have nofile: "\<forall>c. entries ?w OUT_FOLDER \<noteq> Some (File c)" by simp
  have r: "read_text ''jetbrains_research_jbr.html'' ?w = Inl FileNotFoundError"
    by (simp add: read_text_def)
  have code: "cli ?w = (Some FileNotFoundError,
        \<lparr>entries = [''out'' \<mapsto> Dir Map.empty],
         stdout = [''Creating JetBrains Research JBR page'']\<rparr>)"
    unfolding cli_raises_at_jbr [OF nofile r] by (simp add: OUT_FOLDER_def)
  have p: "prepare_out_folder ?w = (None, \<lparr>entries = [''out'' \<mapsto> Dir Map.empty], stdout = []\<rparr>)"
    unfolding prepare_out_folder_returns [OF nofile] by (simp add: OUT_FOLDER_def)
  have "read_text ''jetbrains_research_jbr.html''
          \<lparr>entries = [''out'' \<mapsto> Dir Map.empty], stdout = []\<rparr> = Inl FileNotFoundError"
    by (simp add: read_text_def)
  then have g: "generate_jbr_data \<lparr>entries = [''out'' \<mapsto> Dir Map.empty], stdout = []\<rparr>
      = (Some FileNotFoundError, \<lparr>entries = [''out'' \<mapsto> Dir Map.empty], stdout = []\<rparr>)"
    by (rule generate_jbr_data_raises_at_read)
  have spec: "cli_spec_order ?w
      = (Some FileNotFoundError, \<lparr>entries = [''out'' \<mapsto> Dir Map.empty], stdout = []\<rparr>)"
    by (simp add: cli_spec_order_def and_then_def p g)
  have "cli ?w \<noteq> cli_spec_order ?w"
    unfolding code spec by simp
  with code spec show ?thesis by (intro conjI)
qed

end
